theory Spec2Isabelle
  imports Main "HOL-Library.Char_ord" "HOL-Library.List_Lexorder" "HOL-Library.Sublist"
begin

section \<open>The Java generator of generators/java.js\<close>

text \<open>
  A shallow embedding of \<^verbatim>\<open>Blockly.Java\<close>, the generator object of
  \<^verbatim>\<open>generators/java.js\<close>. The fields of the object are a record that every
  function takes and returns; a \<^verbatim>\<open>throw\<close> (and a property read on
  \<^verbatim>\<open>undefined\<close>) is the left summand of the result, and what a function that
  fails has done to the fields is not kept. Strings are lists of characters with codes
  below 256, compared by character code as the relational operators of JavaScript
  compare them.
\<close>

subsection \<open>Strings\<close>

definition NL :: string where
  "NL = [CHR 0x0A]"

definition DQ :: string where
  "DQ = [CHR 0x22]"

text \<open>\<^verbatim>\<open>s.split(c)\<close> for a separator of one character: always at least one piece.\<close>

fun split :: "char \<Rightarrow> string \<Rightarrow> string list" where
  "split c [] = [[]]"
| "split c (x # xs) =
     (if x = c then [] # split c xs
      else (case split c xs of [] \<Rightarrow> [[x]] | p # ps \<Rightarrow> (x # p) # ps))"

text \<open>\<^verbatim>\<open>s.split(c, limit)\<close> keeps the first \<open>limit\<close> pieces.\<close>

definition split_limit :: "char \<Rightarrow> nat \<Rightarrow> string \<Rightarrow> string list" where
  "split_limit c limit s = take limit (split c s)"

text \<open>\<^verbatim>\<open>xs.join(sep)\<close>.\<close>

fun join :: "string \<Rightarrow> string list \<Rightarrow> string" where
  "join sep [] = []"
| "join sep [x] = x"
| "join sep (x # y # ys) = x @ sep @ join sep (y # ys)"

text \<open>
  \<^verbatim>\<open>s.trim()\<close>: the white space and line terminators of JavaScript among the
  character codes below 256.
\<close>

definition isWhiteSpace :: "char \<Rightarrow> bool" where
  "isWhiteSpace c = (c \<in> set [CHR 0x09, CHR 0x0A, CHR 0x0B, CHR 0x0C, CHR 0x0D, CHR 0x20, CHR 0xA0])"

definition trim :: "string \<Rightarrow> string" where
  "trim s = rev (dropWhile isWhiteSpace (rev (dropWhile isWhiteSpace s)))"

text \<open>The decimal text of a natural number, as string concatenation renders it.\<close>

definition digit :: "nat \<Rightarrow> char" where
  "digit d = char_of (48 + d)"

fun decimal :: "nat \<Rightarrow> string" where
  "decimal n = (if n < 10 then [digit n] else decimal (n div 10) @ [digit (n mod 10)])"

declare decimal.simps [simp del]

text \<open>
  A number of JavaScript, given by the text it has in a string concatenation
  (\<^verbatim>\<open>0\<close>, \<^verbatim>\<open>1.5\<close>, \<^verbatim>\<open>1e+21\<close>): the generator reads nothing else of
  a number it is given.
\<close>

datatype number =
  Number (number_text: string)

subsection \<open>The precedence table\<close>

text \<open>
  The \<^verbatim>\<open>ORDER_*\<close> properties (lines 63 to 89): the names, and the number each
  is assigned.
\<close>

datatype category =
    ATOMIC | COLLECTION | STRING_CONVERSION | MEMBER | FUNCTION_CALL | POSTFIX_OP
  | EXPONENTIATION | LOGICAL_NOT | UNARY_SIGN | MULTIPLICATIVE | ADDITIVE | BITWISE_SHIFT
  | RELATIONAL | EQUALITY | BITWISE_AND | BITWISE_XOR | BITWISE_OR | LOGICAL_AND
  | LOGICAL_OR | CONDITIONAL | ASSIGNMENT | NONE

fun ORDER :: "category \<Rightarrow> nat" where
  "ORDER ATOMIC = 0"
| "ORDER COLLECTION = 1"
| "ORDER STRING_CONVERSION = 1"
| "ORDER MEMBER = 2"
| "ORDER FUNCTION_CALL = 2"
| "ORDER POSTFIX_OP = 3"
| "ORDER EXPONENTIATION = 3"
| "ORDER LOGICAL_NOT = 3"
| "ORDER UNARY_SIGN = 4"
| "ORDER MULTIPLICATIVE = 5"
| "ORDER ADDITIVE = 6"
| "ORDER BITWISE_SHIFT = 7"
| "ORDER RELATIONAL = 8"
| "ORDER EQUALITY = 9"
| "ORDER BITWISE_AND = 10"
| "ORDER BITWISE_XOR = 11"
| "ORDER BITWISE_OR = 12"
| "ORDER LOGICAL_AND = 13"
| "ORDER LOGICAL_OR = 14"
| "ORDER CONDITIONAL = 15"
| "ORDER ASSIGNMENT = 16"
| "ORDER NONE = 99"

text \<open>
  Modelled from the spec: the comparison \<^verbatim>\<open>needsParens(childCategory, parentContext)\<close>
  of section 4.1, made by the base generator's \<^verbatim>\<open>valueToCode\<close>, which is not in
  this file. It is true iff the child's category is numerically weaker (a larger number)
  than what the parent context requires.
\<close>

definition needsParens :: "nat \<Rightarrow> nat \<Rightarrow> bool" where
  "needsParens childCategory parentContext = (parentContext < childCategory)"

subsection \<open>Errors, values and dictionaries\<close>

text \<open>
  \<open>Thrown\<close> carries the string of a \<^verbatim>\<open>throw\<close> statement. \<open>TypeError\<close> is
  the error of reading or writing a property of \<^verbatim>\<open>undefined\<close>; it carries a note
  of what was undefined, not the wording of the engine.
\<close>

datatype error =
    TypeError string
  | Thrown string

definition andThen :: "error + 'a \<Rightarrow> ('a \<Rightarrow> error + 'b) \<Rightarrow> error + 'b" where
  "andThen r f = (case r of Inl e \<Rightarrow> Inl e | Inr x \<Rightarrow> f x)"

text \<open>
  A dictionary is the list of an object's own properties in the order they were first
  assigned. Assigning to a property that exists keeps its place.
\<close>

type_synonym 'v dict = "(string \<times> 'v) list"

fun put :: "string \<Rightarrow> 'v \<Rightarrow> 'v dict \<Rightarrow> 'v dict" where
  "put k v [] = [(k, v)]"
| "put k v (p # d) = (if fst p = k then (k, v) # d else p # put k v d)"

text \<open>
  The order of \<^verbatim>\<open>for (k in d)\<close>: the keys that are array indices (canonical
  decimal numbers below \<open>2\<^sup>3\<^sup>2 - 1\<close>) in ascending numeric order, then the other
  keys in the order they were first assigned.
\<close>

definition isDigit :: "char \<Rightarrow> bool" where
  "isDigit c = (CHR ''0'' \<le> c \<and> c \<le> CHR ''9'')"

definition index_value :: "string \<Rightarrow> nat" where
  "index_value k = foldl (\<lambda>n c. 10 * n + (of_char c - 48)) 0 k"

definition isArrayIndex :: "string \<Rightarrow> bool" where
  "isArrayIndex k =
     (k \<noteq> [] \<and> list_all isDigit k \<and> (k = ''0'' \<or> take 1 k \<noteq> ''0'') \<and> index_value k < 2 ^ 32 - 1)"

definition forin_keys :: "'v dict \<Rightarrow> string list" where
  "forin_keys d =
     sort_key index_value (filter isArrayIndex (map fst d)) @
     filter (\<lambda>k. \<not> isArrayIndex k) (map fst d)"

text \<open>\<^verbatim>\<open>goog.object.getValues(d)\<close>: the values in \<^verbatim>\<open>for\<close>-\<^verbatim>\<open>in\<close> order.\<close>

definition getValues :: "'v dict \<Rightarrow> 'v list" where
  "getValues d = List.map_filter (map_of d) (forin_keys d)"

text \<open>
  The values of the type tables: a string, or \<open>Builtin k\<close>, the built-in value that an
  object literal inherits under the name \<open>k\<close> from \<^verbatim>\<open>Object.prototype\<close> (a
  function; under \<^verbatim>\<open>__proto__\<close> the prototype object itself). \<^verbatim>\<open>typeMapping\<close>,
  \<^verbatim>\<open>subtypeMapping\<close> and \<^verbatim>\<open>variableTypes_\<close> are such literals, so
  \<open>get\<close> reads them as \<^verbatim>\<open>d[k]\<close> does: an own property first, an inherited one
  otherwise. The dictionaries that \<^verbatim>\<open>init\<close> makes with
  \<^verbatim>\<open>Object.create(null)\<close> inherit nothing and are read with \<open>map_of\<close>.
\<close>

datatype jsval =
    Str string
  | Builtin string

definition Object_prototype :: "string list" where
  "Object_prototype =
     [''constructor'', ''__defineGetter__'', ''__defineSetter__'', ''hasOwnProperty'',
      ''__lookupGetter__'', ''__lookupSetter__'', ''isPrototypeOf'', ''propertyIsEnumerable'',
      ''toString'', ''valueOf'', ''__proto__'', ''toLocaleString'']"

definition get :: "jsval dict \<Rightarrow> string \<Rightarrow> jsval option" where
  "get d k =
     (case map_of d k of
        Some v \<Rightarrow> Some v
      | None \<Rightarrow> if k \<in> set Object_prototype then Some (Builtin k) else None)"

text \<open>The operator \<^verbatim>\<open>k in d\<close>: an own or an inherited property.\<close>

definition has_property :: "string \<Rightarrow> jsval dict \<Rightarrow> bool" where
  "has_property k d = (get d k \<noteq> None)"

text \<open>What \<^verbatim>\<open>if (v)\<close> takes for true: anything but \<^verbatim>\<open>undefined\<close> and the empty string.\<close>

fun truthy :: "jsval option \<Rightarrow> bool" where
  "truthy None = False"
| "truthy (Some (Str s)) = (s \<noteq> [])"
| "truthy (Some (Builtin k)) = True"

text \<open>
  The text a value has in a string concatenation. For a built-in function it is the
  engine's rendering of native code (written here as V8 prints it).
\<close>

fun text_of :: "jsval \<Rightarrow> string" where
  "text_of (Str s) = s"
| "text_of (Builtin k) =
     (if k = ''__proto__'' then ''[object Object]''
      else ''function '' @ (if k = ''constructor'' then ''Object'' else k) @ ''() { [native code] }'')"

text \<open>
  \<^verbatim>\<open>d[k] = v\<close> on an object literal. Under the name \<^verbatim>\<open>__proto__\<close> the
  assignment runs the inherited setter and stores no property (the setter ignores a
  string; a built-in function there would become the prototype, which this model does
  not follow).
\<close>

definition assign :: "string \<Rightarrow> jsval \<Rightarrow> jsval dict \<Rightarrow> jsval dict" where
  "assign k v d = (if k = ''__proto__'' then d else put k v d)"

subsection \<open>The generator object\<close>

text \<open>
  A helper definition in \<^verbatim>\<open>definitions_\<close> is its text, or a function that
  returns the text when \<^verbatim>\<open>finish\<close> calls it.
\<close>

datatype helper =
    Text string
  | Factory string

text \<open>
  Modelled from the spec: the Name Registry (\<^verbatim>\<open>Blockly.Names\<close>, section 4.2), which
  is not in this file. A registry is its bindings, from a logical name and a category to
  the emitted identifier; \<^verbatim>\<open>reset()\<close> clears all bindings, and a new registry
  has none. \<^verbatim>\<open>getName\<close> is a parameter \<open>gn\<close> of the functions that call it.
\<close>

type_synonym names = "((string \<times> string) \<times> string) list"

type_synonym getName = "names \<Rightarrow> string \<Rightarrow> string \<Rightarrow> string \<times> names"

definition Names_new :: names where
  "Names_new = []"

definition Names_reset :: "names \<Rightarrow> names" where
  "Names_reset db = []"






text \<open>
  The fields of \<^verbatim>\<open>Blockly.Java\<close> (lines 94 to 204 and \<^verbatim>\<open>init\<close>); the
  underscore that ends a name of the source is written as a prime. A field that
  does not exist before \<^verbatim>\<open>init\<close> or after \<^verbatim>\<open>finish\<close> is an option.
  \<open>globals'\<close> maps a variable to its initializer, \<open>None\<close> for \<^verbatim>\<open>null\<close>;
  \<open>globals_literal\<close> says whether \<^verbatim>\<open>globals_\<close> is still the object literal of
  line 171, which inherits from \<^verbatim>\<open>Object.prototype\<close>, and not yet a dictionary made
  by \<^verbatim>\<open>init\<close>.
  The last three fields are not the generator's: \<open>Blocks_GBPClass k\<close> is the value of
  \<^verbatim>\<open>Blockly.Blocks[k] && Blockly.Blocks[k].GBPClass\<close> when that is true,
  \<open>VariableTypeEquivalence\<close> the table of that name, and \<open>console\<close> the lines
  written by \<^verbatim>\<open>console.log\<close>.
\<close>

record gen_state =
  POSTFIX :: string
  EXTRAINDENT :: string
  variableTypes' :: "jsval dict"
  blocklyTypes' :: "string dict"
  AppName' :: string
  Description' :: string
  VersionName' :: string
  VersionNumber' :: number
  HomeWebsite' :: string
  minSdk :: string
  icon :: string
  name :: string
  year :: nat
  Package' :: string
  Baseclass' :: string
  needImports' :: "string list"
  Interfaces' :: "string list"
  ExtraImports' :: "string list option"
  INLINEVARCLASS :: bool
  classes' :: "string dict"
  globals' :: "string option dict"
  globals_literal :: bool
  targetType' :: "string option"
  definitions' :: "helper dict option"
  functionNames' :: "string dict option"
  imports' :: "string dict option"
  variableDB' :: "names option"
  Blocks_GBPClass :: "string \<Rightarrow> string option"
  VariableTypeEquivalence :: "string \<Rightarrow> string list option"
  console :: "string list"

definition PASS :: string where
  "PASS = ''  {}'' @ NL"

definition INDENT :: string where
  "INDENT = ''    ''"

subsection \<open>Settings\<close>

definition setAppName :: "string option \<Rightarrow> gen_state \<Rightarrow> gen_state" where
  "setAppName nm s =
     s\<lparr>AppName' := (case nm of None \<Rightarrow> ''MyApp'' | Some n \<Rightarrow> if n = [] then ''MyApp'' else n)\<rparr>"

definition getAppName :: "getName \<Rightarrow> gen_state \<Rightarrow> error + (string \<times> gen_state)" where
  "getAppName gn s =
     (case variableDB' s of
        None \<Rightarrow> Inl (TypeError ''variableDB_ is undefined'')
      | Some db \<Rightarrow>
          (case gn db (AppName' s) ''CLASS'' of
             (emitted, db') \<Rightarrow> Inr (emitted, s\<lparr>variableDB' := Some db'\<rparr>)))"

definition setPackage :: "string option \<Rightarrow> gen_state \<Rightarrow> gen_state" where
  "setPackage javaPackage s =
     s\<lparr>Package' := (case javaPackage of None \<Rightarrow> ''demo'' | Some p \<Rightarrow> if p = [] then ''demo'' else p)\<rparr>"

definition getPackage :: "gen_state \<Rightarrow> string" where
  "getPackage s = Package' s"

definition setBaseclass :: "string \<Rightarrow> gen_state \<Rightarrow> gen_state" where
  "setBaseclass baseclass s = s\<lparr>Baseclass' := baseclass\<rparr>"

definition getBaseclass :: "getName \<Rightarrow> gen_state \<Rightarrow> error + (string \<times> gen_state)" where
  "getBaseclass gn s =
     (if Baseclass' s \<noteq> [] then
        (case variableDB' s of
           None \<Rightarrow> Inl (TypeError ''variableDB_ is undefined'')
         | Some db \<Rightarrow>
             (case gn db (Baseclass' s) ''CLASS'' of
                (emitted, db') \<Rightarrow> Inr (emitted, s\<lparr>variableDB' := Some db'\<rparr>)))
      else Inr ([], s))"

definition addInterface :: "string \<Rightarrow> gen_state \<Rightarrow> gen_state" where
  "addInterface iface s =
     (if iface \<in> set (Interfaces' s) then s else s\<lparr>Interfaces' := Interfaces' s @ [iface]\<rparr>)"

definition getInterfaces :: "gen_state \<Rightarrow> string list option" where
  "getInterfaces s = (if length (Interfaces' s) = 0 then None else Some (Interfaces' s))"

text \<open>
  Whether \<^verbatim>\<open>globals_[name]\<close> is \<^verbatim>\<open>undefined\<close> or \<^verbatim>\<open>null\<close> (lines 349
  and 350). Before the first \<^verbatim>\<open>init\<close> the object is a literal, and a name of
  \<^verbatim>\<open>Object.prototype\<close> that it does not hold itself reads as the inherited value,
  which is neither.
\<close>

definition global_unset :: "string \<Rightarrow> gen_state \<Rightarrow> bool" where
  "global_unset nm s =
     (case map_of (globals' s) nm of
        Some val \<Rightarrow> val = None
      | None \<Rightarrow> \<not> (globals_literal s \<and> nm \<in> set Object_prototype))"

text \<open>
  \<open>localContext\<close> says whether \<^verbatim>\<open>Blockly.Variables.getLocalContext(block, name)\<close>
  found a local declaration.
\<close>

definition setGlobalVar :: "bool \<Rightarrow> string \<Rightarrow> string option \<Rightarrow> gen_state \<Rightarrow> gen_state" where
  "setGlobalVar localContext nm val s =
     (if \<not> localContext \<and> global_unset nm s
      then s\<lparr>globals' := put nm val (globals' s)\<rparr>
      else s)"

definition GetVariableType :: "string \<Rightarrow> gen_state \<Rightarrow> jsval" where
  "GetVariableType nm s =
     (case get (variableTypes' s) nm of
        None \<Rightarrow> Str ''Object''
      | Some type \<Rightarrow> if truthy (Some type) then type else Str ''Object'')"

definition GetBlocklyType :: "string \<Rightarrow> gen_state \<Rightarrow> string option" where
  "GetBlocklyType variable s = map_of (blocklyTypes' s) variable"

subsection \<open>Imports\<close>

definition import_statement :: "string \<Rightarrow> string" where
  "import_statement importlib = ''import '' @ importlib @ '';''"

definition addImport :: "string \<Rightarrow> gen_state \<Rightarrow> error + gen_state" where
  "addImport importlib s =
     (let importStr = import_statement importlib in
      case imports' s of
        None \<Rightarrow> Inl (TypeError ''imports_ is undefined'')
      | Some d \<Rightarrow> Inr (s\<lparr>imports' := Some (put importStr importStr d)\<rparr>))"

text \<open>The loop \<^verbatim>\<open>for (i ...) this.addImport(list[i])\<close> of \<^verbatim>\<open>init\<close> and \<^verbatim>\<open>getImports\<close>.\<close>

fun addImports :: "string list \<Rightarrow> gen_state \<Rightarrow> error + gen_state" where
  "addImports [] s = Inr s"
| "addImports (importlib # rest) s = andThen (addImport importlib s) (addImports rest)"

definition getImports :: "gen_state \<Rightarrow> error + (string \<times> gen_state)" where
  "getImports s =
     andThen (case ExtraImports' s of None \<Rightarrow> Inr s | Some extra \<Rightarrow> addImports extra s)
       (\<lambda>s'. let keys = (case imports' s' of None \<Rightarrow> [] | Some d \<Rightarrow> getValues d)
             in Inr (join NL (sort keys), s'))"

definition setExtraImports :: "string list option \<Rightarrow> gen_state \<Rightarrow> gen_state" where
  "setExtraImports extraImports s = s\<lparr>ExtraImports' := extraImports\<rparr>"

definition getClasses :: "gen_state \<Rightarrow> string" where
  "getClasses s =
     (let code = concat (getValues (classes' s))
      in if code \<noteq> [] then code @ NL @ NL else code)"

subsection \<open>Types\<close>

definition typeMapping :: "jsval dict" where
  "typeMapping =
     [(''Object'', Str ''Object''), (''Array'', Str ''YailList''), (''Map'', Str ''HashMap''),
      (''Boolean'', Str ''boolean''), (''String'', Str ''String''), (''Colour'', Str ''String''),
      (''Number'', Str ''double'')]"

definition subtypeMapping :: "jsval dict" where
  "subtypeMapping =
     [(''Object'', Str ''Object''), (''Array'', Str ''YailList''), (''Map'', Str ''HashMap''),
      (''Boolean'', Str ''boolean''), (''String'', Str ''String''), (''Colour'', Str ''String''),
      (''Number'', Str ''Double'')]"

text \<open>
  The chain of tests that \<^verbatim>\<open>mapType_\<close> makes on one key (lines 537 to 547): the type
  found, and the line it logs when it finds none.
\<close>

definition mapKey :: "gen_state \<Rightarrow> jsval dict \<Rightarrow> string \<Rightarrow> jsval \<times> string list" where
  "mapKey s mapping key =
     (case (if truthy (get mapping key) then get mapping key else None) of
        Some type \<Rightarrow> (type, [])
      | None \<Rightarrow>
          (case Blocks_GBPClass s key of
             Some GBPClass \<Rightarrow> (Str GBPClass, [])
           | None \<Rightarrow>
               if VariableTypeEquivalence s key \<noteq> None then (Str key, [])
               else (Str ''Object'', [''Unknown type for '' @ key @ '' using Var for '' @ key])))"

text \<open>
  The inner function \<^verbatim>\<open>mapType_\<close>; the empty list stands for both values of
  \<^verbatim>\<open>typeArray\<close> that take the first branch, \<^verbatim>\<open>null\<close> and \<^verbatim>\<open>[]\<close>.
  The result is the type and the lines logged.
\<close>

fun mapType' :: "gen_state \<Rightarrow> jsval dict \<Rightarrow> string list \<Rightarrow> jsval \<times> string list" where
  "mapType' s mapping [] =
     (case mapKey s mapping ''Object'' of
        (type, logged) \<Rightarrow> (type, ''Empty type. Using Object'' # logged))"
| "mapType' s mapping (key # typeArray) =
     (case mapKey s mapping key of
        (type, logged) \<Rightarrow>
          if length typeArray > 0 then
            (case mapType' s subtypeMapping typeArray of
               (subType, logged') \<Rightarrow>
                 (Str (text_of type @ ''<'' @ text_of subType @ ''>''), logged @ logged'))
          else (type, logged))"

definition mapType :: "string option \<Rightarrow> gen_state \<Rightarrow> jsval \<times> gen_state" where
  "mapType type s =
     (let typeArray = (case type of None \<Rightarrow> [] | Some t \<Rightarrow> if t = [] then [] else split CHR '':'' t)
      in case mapType' s typeMapping typeArray of
           (result, logged) \<Rightarrow> (result, s\<lparr>console := console s @ logged\<rparr>))"

definition setTargetType :: "string option \<Rightarrow> gen_state \<Rightarrow> string option \<times> gen_state" where
  "setTargetType type s = (targetType' s, s\<lparr>targetType' := type\<rparr>)"

definition getTargetType :: "gen_state \<Rightarrow> string option" where
  "getTargetType s = targetType' s"

subsection \<open>Blocks and workspaces\<close>

text \<open>
  What the generator reads of a block. \<open>outputConnection\<close> is \<open>None\<close> for a block with
  no output, and otherwise says whether the connection has a \<^verbatim>\<open>targetConnection\<close>;
  \<open>targetBlock\<close> of an input is the block its connection leads to;
  \<open>nextConnection\<close> is \<open>None\<close> for a block with no next connection, and otherwise its
  \<^verbatim>\<open>targetBlock()\<close>; \<open>onchange\<close> is the block's handler, if it has one.
\<close>

datatype inputType =
    INPUT_VALUE
  | NEXT_STATEMENT
  | DUMMY_INPUT

datatype block =
  Block
    (getCommentText: "string option")
    (outputConnection: "bool option")
    (inputList: "input list")
    (nextConnection: "block option option")
    (onchange: "(gen_state \<Rightarrow> error + gen_state) option")
and input =
  Input
    (input_type: inputType)
    (targetBlock: "block option")

text \<open>
  What the generator reads of the root it is given. \<open>options\<close> is \<open>None\<close> for a root
  with no \<^verbatim>\<open>options\<close> property, and otherwise its \<^verbatim>\<open>appTitle\<close>;
  \<open>getDescendants\<close> and \<open>getAllBlocks\<close> are the results of the methods of these
  names, where the root has them; \<open>root_text\<close> is the text of the root in a string
  concatenation; \<open>allVariables\<close> and \<open>allVariablesTypes\<close> are what the functions of
  these names in \<^verbatim>\<open>Blockly.Variables\<close> return for it, the second a dictionary from
  the names of variables to their types, read by its own entries.
\<close>

record root =
  options :: "string option option"
  getDescendants :: "block list option"
  getAllBlocks :: "block list option"
  root_text :: string
  allVariables :: "string list"
  allVariablesTypes :: "string dict"

fun call_onchange :: "block list \<Rightarrow> gen_state \<Rightarrow> error + gen_state" where
  "call_onchange [] s = Inr s"
| "call_onchange (b # blocks) s =
     (case onchange b of
        Some handler \<Rightarrow> andThen (handler s) (call_onchange blocks)
      | None \<Rightarrow> call_onchange blocks s)"

definition forceUpdate :: "root \<Rightarrow> gen_state \<Rightarrow> error + gen_state" where
  "forceUpdate r s =
     (case getDescendants r of
        Some blocks \<Rightarrow> call_onchange blocks s
      | None \<Rightarrow>
          (case getAllBlocks r of
             Some blocks \<Rightarrow> call_onchange blocks s
           | None \<Rightarrow> Inl (Thrown (''Not Block or Workspace: '' @ root_text r))))"

subsection \<open>The start of a run\<close>

text \<open>The last loop of \<^verbatim>\<open>init\<close> (lines 629 to 632).\<close>

fun init_variableTypes :: "string list \<Rightarrow> gen_state \<Rightarrow> gen_state" where
  "init_variableTypes [] s = s"
| "init_variableTypes (key # variables) s =
     (case mapType (map_of (blocklyTypes' s) key) s of
        (type, s') \<Rightarrow>
          init_variableTypes variables (s'\<lparr>variableTypes' := assign key type (variableTypes' s')\<rparr>))"

definition init :: "root \<Rightarrow> gen_state \<Rightarrow> error + gen_state" where
  "init workspace s =
     (let s1 = s\<lparr>definitions' := Some [], functionNames' := Some [], imports' := Some [],
                 classes' := [], globals' := [], globals_literal := False\<rparr>
      in andThen (addImports (needImports' s1) s1)
           (\<lambda>s2.
              let s3 = s2\<lparr>variableDB' :=
                          Some (case variableDB' s2 of None \<Rightarrow> Names_new | Some db \<Rightarrow> Names_reset db)\<rparr>;
                  s4 = s3\<lparr>VariableTypeEquivalence :=
                          (VariableTypeEquivalence s3)(''Colour'' \<mapsto> [''String''])\<rparr>;
                  s5 = s4\<lparr>blocklyTypes' := allVariablesTypes workspace\<rparr>;
                  variables = allVariables workspace @ forin_keys (blocklyTypes' s5)
              in Inr (init_variableTypes variables s5)))"

subsection \<open>The end of a run\<close>

text \<open>
  The slot \<^verbatim>\<open>finish\<close> gives a definition (lines 649 to 660): 0 for a text with the
  word \<^verbatim>\<open>static\<close> among the pieces of \<^verbatim>\<open>def.split(" ", 3)\<close>, 1 for any
  other text and for every function.
\<close>

definition slot_of :: "helper \<Rightarrow> nat" where
  "slot_of def =
     (case def of
        Factory body \<Rightarrow> 1
      | Text body \<Rightarrow> if ''static'' \<in> set (split_limit CHR '' '' 3 body) then 0 else 1)"

text \<open>The first loop of \<^verbatim>\<open>finish\<close>: \<open>funcs\<close> is the pair of the two slots.\<close>

fun collect_funcs ::
  "helper dict \<Rightarrow> string list \<Rightarrow> string list \<times> string list \<Rightarrow> string list \<times> string list" where
  "collect_funcs defs [] funcs = funcs"
| "collect_funcs defs (nm # rest) funcs =
     (if nm = ''variables'' then collect_funcs defs rest funcs
      else
        (case map_of defs nm of
           None \<Rightarrow> collect_funcs defs rest funcs
         | Some def \<Rightarrow>
             if slot_of def = 0 then collect_funcs defs rest (fst funcs @ [nm], snd funcs)
             else collect_funcs defs rest (fst funcs, snd funcs @ [nm])))"

text \<open>
  Modelled from the spec: the naming category of variables,
  \<^verbatim>\<open>Blockly.Variables.NAME_TYPE\<close>, a constant declared outside this file.
\<close>

definition NAME_TYPE :: string where
  "NAME_TYPE = ''VARIABLE''"

definition initializer :: "string option option \<Rightarrow> jsval \<Rightarrow> string" where
  "initializer val type =
     (if val \<noteq> None \<and> val \<noteq> Some None \<and> val \<noteq> Some (Some []) then
        '' = '' @ (case val of Some (Some v) \<Rightarrow> v | _ \<Rightarrow> [])
      else if type = Str ''Var'' then '' = new Var()''
      else if type = Str ''Boolean'' then '' = false''
      else if type = Str ''String'' then '' = '' @ DQ @ DQ
      else [])"

text \<open>The loop over \<^verbatim>\<open>globals_\<close> (lines 668 to 683): the text added, and the registry.\<close>

fun declare_globals :: "getName \<Rightarrow> gen_state \<Rightarrow> string list \<Rightarrow> names \<Rightarrow> string \<times> names" where
  "declare_globals gn s [] db = ([], db)"
| "declare_globals gn s (def # rest) db =
     (let type = GetVariableType def s in
      case gn db def NAME_TYPE of
        (varname, db') \<Rightarrow>
          (case declare_globals gn s rest db' of
             (others, db'') \<Rightarrow>
               (''protected '' @ text_of type @ '' '' @ varname
                  @ initializer (map_of (globals' s) def) type @ '';'' @ NL @ others,
                db'')))"

text \<open>
  The comment put before a function (lines 694 to 720). \<open>rettype\<close> is \<open>None\<close> when
  \<^verbatim>\<open>res2[res2.length-2]\<close> is \<^verbatim>\<open>undefined\<close>.
\<close>

fun param_lines :: "string list \<Rightarrow> string \<times> string \<Rightarrow> string \<times> string" where
  "param_lines [] (header, extra) = (header, extra)"
| "param_lines (arg # args) (header, extra) =
     param_lines args (header @ extra @ '' * @param '' @ last (split CHR '' '' arg) @ NL, [])"

definition function_header :: "string \<Rightarrow> string" where
  "function_header def =
     (case split_limit CHR ''('' 2 def of
        before # after # _ \<Rightarrow>
          if CHR '';'' \<notin> set before then
            (let header = ''  /**'' @ NL @ '' * Description goes here'' @ NL;
                 extra = '' *'' @ NL;
                 res2 = split CHR '' '' before;
                 rettype = (if 2 \<le> length res2 then Some (res2 ! (length res2 - 2)) else None);
                 res = trim (case split_limit CHR '')'' 1 after of piece # _ \<Rightarrow> piece | [] \<Rightarrow> []);
                 args = (if res \<noteq> [] then split CHR '','' res else [])
             in case param_lines args (header, extra) of
                  (header', extra') \<Rightarrow>
                    (if rettype \<noteq> Some ''void'' \<and> rettype \<noteq> Some ''public'' then
                       header' @ extra' @ '' * @return ''
                         @ (case rettype of Some t \<Rightarrow> t | None \<Rightarrow> ''undefined'') @ NL
                     else header')
                    @ '' */'' @ NL)
          else []
      | _ \<Rightarrow> [])"

definition helper_text :: "helper \<Rightarrow> string" where
  "helper_text def = (case def of Text body \<Rightarrow> body | Factory body \<Rightarrow> body)"

text \<open>The inner loop over the sorted names of one slot (lines 687 to 723).\<close>

fun emit_funcs :: "helper dict \<Rightarrow> string list \<Rightarrow> string" where
  "emit_funcs defs [] = []"
| "emit_funcs defs (nm # names) =
     (case map_of defs nm of
        None \<Rightarrow> emit_funcs defs names
      | Some def \<Rightarrow>
          function_header (helper_text def) @ helper_text def @ NL @ NL @ emit_funcs defs names)"

text \<open>\<^verbatim>\<open>replace(/\n\n+/g, '\n\n')\<close>; \<open>n\<close> counts the newlines just copied.\<close>

fun collapse_newlines :: "nat \<Rightarrow> string \<Rightarrow> string" where
  "collapse_newlines n [] = []"
| "collapse_newlines n (c # cs) =
     (if c = CHR 0x0A then
        (if n < 2 then c # collapse_newlines (Suc n) cs else collapse_newlines n cs)
      else c # collapse_newlines 0 cs)"

text \<open>\<^verbatim>\<open>replace(/\n*$/, '\n\n\n')\<close>.\<close>

definition end_newlines :: "string \<Rightarrow> string" where
  "end_newlines text = rev (dropWhile (\<lambda>c. c = CHR 0x0A) (rev text)) @ NL @ NL @ NL"

definition finish :: "getName \<Rightarrow> string \<Rightarrow> gen_state \<Rightarrow> error + (string \<times> gen_state)" where
  "finish gn code s =
     (let defs = (case definitions' s of None \<Rightarrow> [] | Some d \<Rightarrow> d);
          funcs = collect_funcs defs (forin_keys defs) ([], [])
      in case variableDB' s of
           None \<Rightarrow> Inl (TypeError ''variableDB_ is undefined'')
         | Some db \<Rightarrow>
             (case declare_globals gn s (forin_keys (globals' s)) db of
                (declarations, db') \<Rightarrow>
                  (let allDefs = declarations @ emit_funcs defs (sort (fst funcs))
                                   @ emit_funcs defs (sort (snd funcs))
                   in Inr (end_newlines (collapse_newlines 0 allDefs) @ code,
                           s\<lparr>definitions' := None, functionNames' := None,
                             variableDB' := Some (Names_reset db')\<rparr>))))"

definition scrubNakedValue :: "string \<Rightarrow> string" where
  "scrubNakedValue line = line @ '';'' @ NL"

subsection \<open>Comments and the next block\<close>

text \<open>
  \<^verbatim>\<open>prefixLines\<close>, \<^verbatim>\<open>allNestedComments\<close> and \<^verbatim>\<open>blockToCode\<close> are
  methods of the base generator, which is not in this file: they are the parameters
  \<open>pl\<close>, \<open>anc\<close> and \<open>btc\<close>.
\<close>

type_synonym prefixLines = "string \<Rightarrow> string \<Rightarrow> string"

type_synonym allNestedComments = "block \<Rightarrow> string"

type_synonym 'p blockToCode = "block option \<Rightarrow> 'p \<Rightarrow> gen_state \<Rightarrow> error + (string \<times> gen_state)"

text \<open>The loop over \<^verbatim>\<open>inputList\<close> (lines 845 to 855).\<close>

fun value_comments :: "prefixLines \<Rightarrow> allNestedComments \<Rightarrow> input list \<Rightarrow> string" where
  "value_comments pl anc [] = []"
| "value_comments pl anc (i # inputs) =
     (if input_type i = INPUT_VALUE then
        (case targetBlock i of
           Some childBlock \<Rightarrow>
             (let comment = anc childBlock in if comment \<noteq> [] then pl comment ''// '' else [])
         | None \<Rightarrow> [])
      else [])
     @ value_comments pl anc inputs"

definition commentCode :: "prefixLines \<Rightarrow> allNestedComments \<Rightarrow> block \<Rightarrow> string" where
  "commentCode pl anc b =
     (if outputConnection b = None \<or> outputConnection b = Some False then
        (case getCommentText b of
           Some comment \<Rightarrow> if comment \<noteq> [] then pl comment ''// '' @ NL else []
         | None \<Rightarrow> [])
        @ value_comments pl anc (inputList b)
      else [])"

definition scrub' ::
  "prefixLines \<Rightarrow> allNestedComments \<Rightarrow> 'p blockToCode \<Rightarrow> block \<Rightarrow> string \<Rightarrow> 'p \<Rightarrow> gen_state
     \<Rightarrow> error + (string \<times> gen_state)" where
  "scrub' pl anc btc b code parms s =
     (let postFix = POSTFIX s;
          s1 = s\<lparr>POSTFIX := []\<rparr>;
          extraIndent = EXTRAINDENT s1;
          s2 = s1\<lparr>EXTRAINDENT := []\<rparr>;
          nextBlock = (case nextConnection b of None \<Rightarrow> None | Some target \<Rightarrow> target)
      in andThen (btc nextBlock parms s2)
           (\<lambda>(nextCode, s3).
              let nextCode' = (if extraIndent \<noteq> [] then pl nextCode extraIndent else nextCode)
              in Inr (commentCode pl anc b @ code @ nextCode' @ postFix, s3)))"

subsection \<open>The compilation unit\<close>

definition fileHeader_lines :: "string list" where
  "fileHeader_lines =
     [''/*'',
      '' * Copyright (c) <<Year>>, <<Your Name>>'',
      '' * All rights reserved.'',
      '' *'',
      '' * Redistribution and use in source and binary forms, with or without'',
      '' * modification, are permitted provided that the following conditions are met:'',
      '' *'',
      '' * * Redistributions of source code must retain the above copyright notice, this'',
      '' *   list of conditions and the following disclaimer.'',
      '' * * Redistributions in binary form must reproduce the above copyright notice,'',
      '' *   this list of conditions and the following disclaimer in the documentation'',
      '' *   and/or other materials provided with the distribution.'',
      '' *'',
      '' * THIS SOFTWARE IS PROVIDED BY THE COPYRIGHT HOLDERS AND CONTRIBUTORS '' @ DQ @ ''AS IS'' @ DQ,
      '' * AND ANY EXPRESS OR IMPLIED WARRANTIES, INCLUDING, BUT NOT LIMITED TO, THE'',
      '' * IMPLIED WARRANTIES OF MERCHANTABILITY AND FITNESS FOR A PARTICULAR PURPOSE'',
      '' * ARE DISCLAIMED. IN NO EVENT SHALL THE COPYRIGHT HOLDER OR CONTRIBUTORS BE'',
      '' * LIABLE FOR ANY DIRECT, INDIRECT, INCIDENTAL, SPECIAL, EXEMPLARY, OR'',
      '' * CONSEQUENTIAL DAMAGES (INCLUDING, BUT NOT LIMITED TO, PROCUREMENT OF'',
      '' * SUBSTITUTE GOODS OR SERVICES; LOSS OF USE, DATA, OR PROFITS; OR BUSINESS'',
      '' * INTERRUPTION) HOWEVER CAUSED AND ON ANY THEORY OF LIABILITY, WHETHER IN'',
      '' * CONTRACT, STRICT LIABILITY, OR TORT (INCLUDING NEGLIGENCE OR OTHERWISE)'',
      '' * ARISING IN ANY WAY OUT OF THE USE OF THIS SOFTWARE, EVEN IF ADVISED OF THE'',
      '' * POSSIBILITY OF SUCH DAMAGE.'',
      '' */'']"

definition fileHeader :: string where
  "fileHeader = concat (map (\<lambda>line. line @ NL) fileHeader_lines)"

text \<open>
  \<^verbatim>\<open>subject.replace(pattern, replacement)\<close> for a pattern that is a string: the first
  occurrence is replaced, and in the replacement \<^verbatim>\<open>$$\<close> is a dollar sign,
  \<^verbatim>\<open>$&\<close> the text matched, and \<^verbatim>\<open>$`\<close> and \<^verbatim>\<open>$'\<close> the text before and
  after the match.
\<close>

fun search :: "string \<Rightarrow> string \<Rightarrow> (string \<times> string) option" where
  "search pattern [] = (if pattern = [] then Some ([], []) else None)"
| "search pattern (c # cs) =
     (if prefix pattern (c # cs) then Some ([], drop (length pattern) (c # cs))
      else (case search pattern cs of
              None \<Rightarrow> None
            | Some (before, after) \<Rightarrow> Some (c # before, after)))"

fun substitute :: "string \<Rightarrow> string \<Rightarrow> string \<Rightarrow> string \<Rightarrow> string" where
  "substitute matched before after (c # d # cs) =
     (if c = CHR ''$'' \<and> d = CHR ''$'' then c # substitute matched before after cs
      else if c = CHR ''$'' \<and> d = CHR ''&'' then matched @ substitute matched before after cs
      else if c = CHR ''$'' \<and> d = CHR 0x60 then before @ substitute matched before after cs
      else if c = CHR ''$'' \<and> d = CHR 0x27 then after @ substitute matched before after cs
      else c # substitute matched before after (d # cs))"
| "substitute matched before after cs = cs"

definition replace :: "string \<Rightarrow> string \<Rightarrow> string \<Rightarrow> string" where
  "replace subject pattern replacement =
     (case search pattern subject of
        None \<Rightarrow> subject
      | Some (before, after) \<Rightarrow> before @ substitute pattern before after replacement @ after)"

definition getDescription :: "gen_state \<Rightarrow> string" where
  "getDescription s = Description' s"

definition getVersionName :: "gen_state \<Rightarrow> string" where
  "getVersionName s = VersionName' s"

definition getVersionNumber :: "gen_state \<Rightarrow> number" where
  "getVersionNumber s = VersionNumber' s"

definition getHomeWebsite :: "gen_state \<Rightarrow> string" where
  "getHomeWebsite s = HomeWebsite' s"

definition getMinSdk :: "gen_state \<Rightarrow> string" where
  "getMinSdk s = minSdk s"

definition getIcon :: "gen_state \<Rightarrow> string" where
  "getIcon s = icon s"

definition getName :: "gen_state \<Rightarrow> string" where
  "getName s = name s"

text \<open>The loop over the interfaces (lines 477 to 481).\<close>

fun implements :: "string \<Rightarrow> string list \<Rightarrow> string" where
  "implements extra [] = []"
| "implements extra (iface # interfaces) = extra @ iface @ implements '', '' interfaces"

text \<open>
  \<^verbatim>\<open>workspaceToCode_\<close>, the method of the base generator that line 438 saves, is
  the parameter \<open>base\<close>: it runs \<^verbatim>\<open>init\<close>, the blocks and \<^verbatim>\<open>finish\<close>.
\<close>

type_synonym 'p workspaceToCode = "root \<Rightarrow> 'p \<Rightarrow> gen_state \<Rightarrow> error + (string \<times> gen_state)"

definition fixed_imports :: "string list" where
  "fixed_imports =
     [''com.google.appinventor.components.runtime.AndroidNonvisibleComponent'',
      ''com.google.appinventor.components.runtime.ComponentContainer'',
      ''com.google.appinventor.components.annotations.SimpleObject'',
      ''com.google.appinventor.components.annotations.DesignerComponent'',
      ''com.google.appinventor.components.common.ComponentCategory'']"

text \<open>The text from the header to the end of the annotations (lines 458 to 469).\<close>

definition unit_head :: "string \<Rightarrow> gen_state \<Rightarrow> string" where
  "unit_head imports s =
     replace (replace fileHeader ''<<Your Name>>'' (getName s)) ''<<Year>>'' (decimal (year s))
     @ ''package '' @ getPackage s @ '';'' @ NL @ NL
     @ imports @ NL
     @ ''@SimpleObject(external=true)'' @ NL
     @ ''@DesignerComponent(version = '' @ number_text (getVersionNumber s)
     @ '', nonVisible = true, category = ComponentCategory.EXTENSION, iconName = '' @ DQ
     @ getIcon s @ DQ @ '', description = '' @ DQ @ getDescription s @ DQ
     @ '', versionName = '' @ DQ @ getVersionName s @ DQ
     @ (if length (getHomeWebsite s) \<noteq> 0 then '', helpUrl = '' @ DQ @ getHomeWebsite s @ DQ else [])
     @ (if length (getMinSdk s) \<noteq> 0 then '', androidMinSdk = '' @ getMinSdk s else [])
     @ '')'' @ NL"

text \<open>The class declaration up to its opening brace (lines 470 to 483).\<close>

definition class_declaration :: "string \<Rightarrow> string \<Rightarrow> string list option \<Rightarrow> string" where
  "class_declaration appName baseClass interfaces =
     ''public class '' @ appName
     @ (if baseClass \<noteq> [] then '' extends '' @ baseClass else [])
     @ (case interfaces of None \<Rightarrow> [] | Some ifaces \<Rightarrow> implements '' implements '' ifaces)"

definition workspaceToCode ::
  "getName \<Rightarrow> 'p workspaceToCode \<Rightarrow> root \<Rightarrow> 'p \<Rightarrow> gen_state \<Rightarrow> error + (string \<times> gen_state)" where
  "workspaceToCode gn base workspace parms s =
     (case options workspace of
        None \<Rightarrow> Inl (TypeError ''workspace.options is undefined'')
      | Some appTitle \<Rightarrow>
          andThen (forceUpdate workspace (setAppName appTitle s)) (\<lambda>s1.
          andThen (base workspace parms s1) (\<lambda>(code, s2).
          andThen (addImports fixed_imports s2) (\<lambda>s3.
          andThen (getImports (setBaseclass ''AndroidNonvisibleComponent'' s3)) (\<lambda>(imports, s4).
          andThen (getAppName gn s4) (\<lambda>(appName, s5).
          andThen (getBaseclass gn s5) (\<lambda>(baseClass, s6).
          andThen (getAppName gn s6) (\<lambda>(appName', s7).
            Inr (unit_head imports s4
                 @ class_declaration appName baseClass (getInterfaces s6)
                 @ '' {'' @ NL @ NL
                 @ ''public '' @ appName' @ ''(ComponentContainer container) {'' @ NL
                 @ ''  super(container.$form());'' @ NL
                 @ ''}'' @ NL
                 @ code @ NL
                 @ ''}'' @ NL @ NL
                 @ getClasses s7,
                 s7)))))))))"



subsection \<open>Examples\<close>

text \<open>
  The generator as the file leaves it when it is loaded (lines 94 to 175), in the year
  \<open>y\<close>, with no block classes and no type equivalences registered.
\<close>

definition loaded :: "nat \<Rightarrow> gen_state" where
  "loaded y =
     \<lparr>POSTFIX = [], EXTRAINDENT = [], variableTypes' = [], blocklyTypes' = [],
      AppName' = ''myApp'', Description' = ''An AppInventor 2 Extension. Made With Rapid.'',
      VersionName' = ''1.0'', VersionNumber' = Number ''0'', HomeWebsite' = [], minSdk = [],
      icon = ''images/extension.png'', name = ''<<Your Name>>'', year = y, Package' = ''demo'',
      Baseclass' = [], needImports' = [], Interfaces' = [], ExtraImports' = None,
      INLINEVARCLASS = True, classes' = [], globals' = [], globals_literal = True,
      targetType' = None,
      definitions' = None, functionNames' = None, imports' = None, variableDB' = None,
      Blocks_GBPClass = (\<lambda>k. None), VariableTypeEquivalence = (\<lambda>k. None), console = []\<rparr>"

text \<open>The loaded generator, configured with one extra import.\<close>

definition import_example :: gen_state where
  "import_example = (loaded 2024)\<lparr>ExtraImports' := Some [''java.util.Map'']\<rparr>"

text \<open>A workspace with no blocks and one variable, \<^verbatim>\<open>flag\<close>, of the type \<^verbatim>\<open>Boolean\<close>.\<close>

definition flag_workspace :: root where
  "flag_workspace =
     \<lparr>options = Some (Some ''Demo''), getDescendants = None, getAllBlocks = Some [],
      root_text = ''[object Object]'', allVariables = [''flag''],
      allVariablesTypes = [(''flag'', ''Boolean'')]\<rparr>"

text \<open>A registry that issues every name as it is, for the parameter \<open>gn\<close>.\<close>

definition issue_unchanged :: getName where
  "issue_unchanged db nm category = (nm, ((nm, category), nm) # db)"

text \<open>A root that is an object with none of the three properties the generator reads.\<close>

definition bare_object :: root where
  "bare_object =
     \<lparr>options = None, getDescendants = None, getAllBlocks = None,
      root_text = ''[object Object]'', allVariables = [], allVariablesTypes = []\<rparr>"

text \<open>
  A statement block with the comment \<^verbatim>\<open>do X\<close>, a value input whose block has the
  comment \<^verbatim>\<open>helper note\<close>, and a statement input whose block has the comment
  \<^verbatim>\<open>inner\<close>.
\<close>

definition comment_block :: block where
  "comment_block =
     Block (Some ''do X'') None
       [Input INPUT_VALUE (Some (Block (Some ''helper note'') (Some True) [] None None)),
        Input NEXT_STATEMENT (Some (Block (Some ''inner'') None [] (Some None) None))]
       (Some None) None"

text \<open>
  Examples of the parameters \<open>pl\<close>, \<open>anc\<close> and \<open>btc\<close>: a prefix put before a
  single line, the comment of a block with no descendants, and a next block whose code
  shows the two modifiers it is emitted under.
\<close>

definition prefix_line :: prefixLines where
  "prefix_line txt pre = pre @ txt"

definition comment_line :: allNestedComments where
  "comment_line b = (case getCommentText b of Some comment \<Rightarrow> comment @ NL | None \<Rightarrow> [])"

definition show_modifiers :: "unit blockToCode" where
  "show_modifiers nextBlock parms s = Inr (''next['' @ POSTFIX s @ EXTRAINDENT s @ '']'', s)"

text \<open>A workspace with no blocks and no variables.\<close>

definition empty_workspace :: root where
  "empty_workspace =
     \<lparr>options = Some (Some ''Demo''), getDescendants = None, getAllBlocks = Some [],
      root_text = ''[object Object]'', allVariables = [], allVariablesTypes = []\<rparr>"


text \<open>
  Four helper definitions: a method that is not static, a static method given as a
  function, a static method whose fourth word is \<^verbatim>\<open>static\<close>, and a static method.
\<close>

definition helper_example :: gen_state where
  "helper_example =
     (loaded 2024)
       \<lparr>variableDB' := Some Names_new,
        definitions' := Some
          [(''alpha'', Text ''public void alpha() {}''),
           (''beta'', Factory ''public static int beta() { return 1; }''),
           (''gamma'', Text ''public final synchronized static void gamma() {}''),
           (''delta'', Text ''private static void delta() {}'')]\<rparr>"

subsection \<open>Auxiliary notions\<close>

text \<open>
  The import dictionary as \<^verbatim>\<open>addImport\<close> builds it: no key twice (as in any
  object), and every value equal to its key.
\<close>

definition same_entries :: "string dict \<Rightarrow> bool" where
  "same_entries d = (distinct (map fst d) \<and> list_all (\<lambda>p. snd p = fst p) d)"

text \<open>The dictionary after the import statements of \<open>libs\<close> have been assigned in turn.\<close>

definition put_imports :: "string list \<Rightarrow> string dict \<Rightarrow> string dict" where
  "put_imports libs d = fold (\<lambda>l. put (import_statement l) (import_statement l)) libs d"

text \<open>
  The blocks connected to the value inputs of a list of inputs, in the order of the list.
\<close>

definition value_children :: "input list \<Rightarrow> block list" where
  "value_children inputs =
     List.map_filter (\<lambda>i. if input_type i = INPUT_VALUE then targetBlock i else None) inputs"

text \<open>The lines for the comment attached to the block itself (lines 839 to 842).\<close>

definition own_comment :: "prefixLines \<Rightarrow> block \<Rightarrow> string" where
  "own_comment pl b =
     (case getCommentText b of
        Some comment \<Rightarrow> if comment \<noteq> [] then pl comment ''// '' @ NL else []
      | None \<Rightarrow> [])"

text \<open>A list of inputs without its statement and dummy inputs.\<close>

definition without_statements :: "input list \<Rightarrow> input list" where
  "without_statements inputs = filter (\<lambda>i. input_type i = INPUT_VALUE) inputs"

text \<open>
  A helper is static-like when it is a text and \<^verbatim>\<open>static\<close> is one of the first three
  pieces that the spaces cut it into.
\<close>

definition static_like :: "helper dict \<Rightarrow> string \<Rightarrow> bool" where
  "static_like defs nm =
     (case map_of defs nm of
        Some (Text body) \<Rightarrow> ''static'' \<in> set (take 3 (split CHR '' '' body))
      | _ \<Rightarrow> False)"

text \<open>
  The names of the helpers, \<^verbatim>\<open>variables\<close> apart: the static-like ones in ascending
  order, then the others in ascending order.
\<close>

definition emission_order :: "helper dict \<Rightarrow> string list" where
  "emission_order defs =
     (let names = filter (\<lambda>nm. nm \<noteq> ''variables'') (map fst defs)
      in sort (filter (static_like defs) names) @ sort (filter (\<lambda>nm. \<not> static_like defs nm) names))"

text \<open>What \<^verbatim>\<open>finish\<close> emits for one helper: the comment, the text, and two newlines.\<close>

definition helper_entry :: "helper dict \<Rightarrow> string \<Rightarrow> string" where
  "helper_entry defs nm =
     (case map_of defs nm of
        Some def \<Rightarrow> function_header (helper_text def) @ helper_text def @ NL @ NL
      | None \<Rightarrow> [])"

section \<open>Properties\<close>

subsection \<open>Precedence\<close>

text \<open>
  C1. In the table the multiplicative category has a smaller number than the additive
  one, the conditional category a larger number than the additive one, and the category
  \<^verbatim>\<open>ORDER_NONE\<close> a larger number than every other. So, with a child parenthesized
  iff its number is larger than the one its parent requires, a multiplicative operand of
  an additive parent gets no parentheses, a conditional operand of an additive parent
  gets them, and a parent that requires \<^verbatim>\<open>ORDER_NONE\<close> gives them to no child.
\<close>

theorem precedence_table_parenthesization:
  "ORDER MULTIPLICATIVE < ORDER ADDITIVE \<and>
   ORDER ADDITIVE < ORDER CONDITIONAL \<and>
   (\<forall>c. c \<noteq> NONE \<longrightarrow> ORDER c < ORDER NONE) \<and>
   \<not> needsParens (ORDER MULTIPLICATIVE) (ORDER ADDITIVE) \<and>
   needsParens (ORDER CONDITIONAL) (ORDER ADDITIVE) \<and>
   (\<forall>c. \<not> needsParens (ORDER c) (ORDER NONE))"
proof -
  have weakest: "c \<noteq> NONE \<Longrightarrow> ORDER c < ORDER NONE" for c
    by (cases c) simp_all
  have bound: "ORDER c \<le> 99" for c
    by (cases c) simp_all
  have "\<not> needsParens (ORDER c) (ORDER NONE)" for c
    using bound [of c] by (simp add: needsParens_def)
  then show ?thesis
    using weakest by (simp add: needsParens_def)
qed

theorem precedence_table_parenthesization_witness:
  "ASSIGNMENT \<noteq> NONE \<and> ORDER ASSIGNMENT < ORDER NONE \<and>
   \<not> needsParens (ORDER ASSIGNMENT) (ORDER NONE)"
proof -
  note table = precedence_table_parenthesization
  from table have weaker: "ASSIGNMENT \<noteq> NONE \<longrightarrow> ORDER ASSIGNMENT < ORDER NONE"
    by blast
  from table have bare: "\<not> needsParens (ORDER ASSIGNMENT) (ORDER NONE)"
    by blast
  from weaker bare show ?thesis
    by simp
qed

subsection \<open>Dictionaries\<close>


lemma keys_put: "fst ` set (put k v d) = insert k (fst ` set d)"
  by (induction d) auto

lemma distinct_put: "distinct (map fst d) \<Longrightarrow> distinct (map fst (put k v d))"
  by (induction d) (auto simp: keys_put)

lemma set_forin_keys: "set (forin_keys d) = fst ` set d"
  by (auto simp: forin_keys_def)

lemma distinct_forin_keys: "distinct (map fst d) \<Longrightarrow> distinct (forin_keys d)"
  by (auto simp: forin_keys_def)

lemma map_filter_id: "(\<And>x. x \<in> set xs \<Longrightarrow> f x = Some x) \<Longrightarrow> List.map_filter f xs = xs"
  by (induction xs) (simp_all add: map_filter_simps)

lemma same_entries_put: "same_entries d \<Longrightarrow> same_entries (put k k d)"
  unfolding same_entries_def
proof (induction d)
  case Nil
  then show ?case by simp
next
  case (Cons p d)
  then show ?case by (auto simp: keys_put distinct_put)
qed

lemma same_entries_lookup:
  assumes "same_entries d" and "k \<in> fst ` set d"
  shows "map_of d k = Some k"
proof -
  from assms(2) obtain v where kv: "(k, v) \<in> set d" by auto
  with assms(1) have "v = k" by (auto simp: same_entries_def list_all_iff)
  with kv assms(1) show ?thesis by (simp add: same_entries_def)
qed

lemma getValues_same_entries: "same_entries d \<Longrightarrow> getValues d = forin_keys d"
  unfolding getValues_def
  by (rule map_filter_id) (simp add: same_entries_lookup set_forin_keys)

lemma sorted_imports:
  assumes "same_entries d"
  shows "sorted (sort (getValues d))" and "distinct (sort (getValues d))"
    and "set (sort (getValues d)) = fst ` set d"
  using assms by (simp_all add: getValues_same_entries set_forin_keys distinct_forin_keys same_entries_def)

lemma addImports_result:
  "imports' s = Some d \<Longrightarrow> addImports libs s = Inr (s\<lparr>imports' := Some (put_imports libs d)\<rparr>)"
  by (induction libs arbitrary: s d) (simp_all add: addImport_def andThen_def put_imports_def Let_def)

lemma same_entries_put_imports: "same_entries d \<Longrightarrow> same_entries (put_imports libs d)"
  unfolding put_imports_def by (induction libs arbitrary: d) (simp_all add: same_entries_put)

lemma keys_put_imports: "fst ` set (put_imports libs d) = fst ` set d \<union> import_statement ` set libs"
  unfolding put_imports_def by (induction libs arbitrary: d) (auto simp: keys_put)

lemma getImports_result:
  assumes "imports' s = Some d"
  shows "getImports s =
           Inr (join NL (sort (getValues (put_imports (case ExtraImports' s of None \<Rightarrow> [] | Some extra \<Rightarrow> extra) d))),
                s\<lparr>imports' := Some (put_imports (case ExtraImports' s of None \<Rightarrow> [] | Some extra \<Rightarrow> extra) d)\<rparr>)"
proof (cases "ExtraImports' s")
  case None
  with assms show ?thesis
    by (simp add: getImports_def andThen_def put_imports_def)
next
  case (Some extra)
  with assms show ?thesis
    by (simp add: getImports_def andThen_def addImports_result)
qed

lemma registered_imports:
  assumes d: "imports' s = Some d" and wf: "same_entries d"
  shows "\<exists>s'. andThen (addImports libs s) getImports =
           Inr (join NL (sort (forin_keys (put_imports (case ExtraImports' s of None \<Rightarrow> [] | Some extra \<Rightarrow> extra) (put_imports libs d)))), s')"
  using d wf
  by (simp add: addImports_result andThen_def getImports_result getValues_same_entries same_entries_put_imports)

subsection \<open>What \<^verbatim>\<open>init\<close> leaves\<close>

lemma mapType_frame: "\<exists>c. snd (mapType t s) = s\<lparr>console := c\<rparr>"
  by (auto simp: mapType_def Let_def split: prod.splits)

lemma init_variableTypes_frame:
  "\<exists>vt c. init_variableTypes variables s = s\<lparr>variableTypes' := vt, console := c\<rparr>"
proof (induction variables arbitrary: s)
  case Nil
  have "s = s\<lparr>variableTypes' := variableTypes' s, console := console s\<rparr>" by simp
  then show ?case by (metis init_variableTypes.simps(1))
next
  case (Cons key variables)
  obtain type s' where m: "mapType (map_of (blocklyTypes' s) key) s = (type, s')"
    by (cases "mapType (map_of (blocklyTypes' s) key) s")
  from mapType_frame [of "map_of (blocklyTypes' s) key" s] m
  obtain c where s': "s' = s\<lparr>console := c\<rparr>" by auto
  from Cons.IH [of "s'\<lparr>variableTypes' := assign key type (variableTypes' s')\<rparr>"]
  obtain vt c' where
    "init_variableTypes variables (s'\<lparr>variableTypes' := assign key type (variableTypes' s')\<rparr>) =
       s'\<lparr>variableTypes' := assign key type (variableTypes' s')\<rparr>\<lparr>variableTypes' := vt, console := c'\<rparr>"
    by blast
  with m s' have "init_variableTypes (key # variables) s = s\<lparr>variableTypes' := vt, console := c'\<rparr>"
    by simp
  then show ?case by blast
qed

lemma init_result:
  "\<exists>vt c. init workspace s =
     Inr (s\<lparr>definitions' := Some [], functionNames' := Some [],
            classes' := [], globals' := [], globals_literal := False,
            imports' := Some (put_imports (needImports' s) []),
            variableDB' := Some Names_new,
            VariableTypeEquivalence := (VariableTypeEquivalence s)(''Colour'' \<mapsto> [''String'']),
            blocklyTypes' := allVariablesTypes workspace,
            variableTypes' := vt, console := c\<rparr>)"
proof -
  let ?s5 = "s\<lparr>definitions' := Some [], functionNames' := Some [],
            classes' := [], globals' := [], globals_literal := False,
            imports' := Some (put_imports (needImports' s) []),
            variableDB' := Some Names_new,
            VariableTypeEquivalence := (VariableTypeEquivalence s)(''Colour'' \<mapsto> [''String'']),
            blocklyTypes' := allVariablesTypes workspace\<rparr>"
  let ?variables = "allVariables workspace @ forin_keys (allVariablesTypes workspace)"
  have db: "(case variableDB' s of None \<Rightarrow> Names_new | Some db \<Rightarrow> Names_reset db) = Names_new"
    by (simp add: Names_new_def Names_reset_def split: option.split)
  have "init workspace s = Inr (init_variableTypes ?variables ?s5)"
    by (simp add: init_def Let_def andThen_def addImports_result db)
  moreover from init_variableTypes_frame [of ?variables ?s5]
  obtain vt c where "init_variableTypes ?variables ?s5 = ?s5\<lparr>variableTypes' := vt, console := c\<rparr>"
    by blast
  ultimately show ?thesis by auto
qed

subsection \<open>Imports\<close>

text \<open>An example: three calls for two libraries, and one extra import.\<close>

lemma getImports_example: "map_sum id fst
         (andThen (init flag_workspace import_example)
            (\<lambda>s. andThen (addImports [''java.util.List'', ''java.text.NumberFormat'', ''java.util.List''] s) getImports)) =
       Inr (''import java.text.NumberFormat;'' @ NL @ ''import java.util.List;'' @ NL @ ''import java.util.Map;'')"
  by code_simp

text \<open>
  C2. After \<^verbatim>\<open>init\<close>, whatever the order and the repetitions of the calls of
  \<^verbatim>\<open>addImport\<close>, the same set of libraries gives the same result of
  \<^verbatim>\<open>getImports\<close>: the lines of a sorted list with no duplicates, joined by
  newlines, which are the import statements of the libraries registered, of
  \<^verbatim>\<open>needImports_\<close> and of every entry of \<^verbatim>\<open>ExtraImports_\<close>. In particular a
  second call with the same library changes nothing.
\<close>

theorem getImports_sorted_unique:
  assumes "set xs = set ys"
  shows "\<exists>s lines s1 s2.
           init workspace s0 = Inr s \<and>
           andThen (addImports xs s) getImports = Inr (join NL lines, s1) \<and>
           andThen (addImports ys s) getImports = Inr (join NL lines, s2) \<and>
           sorted lines \<and> distinct lines \<and>
           set lines = import_statement `
             (set (needImports' s0) \<union> set xs \<union>
              (case ExtraImports' s0 of None \<Rightarrow> {} | Some extra \<Rightarrow> set extra))"
proof -
  from init_result [of workspace s0] obtain s where
    s: "init workspace s0 = Inr s" and d: "imports' s = Some (put_imports (needImports' s0) [])"
    and e: "ExtraImports' s = ExtraImports' s0"
    by auto
  let ?d = "put_imports (needImports' s0) []"
  let ?extra = "case ExtraImports' s of None \<Rightarrow> [] | Some extra \<Rightarrow> extra"
  let ?dict = "\<lambda>libs. put_imports ?extra (put_imports libs ?d)"
  have wf: "same_entries ?d"
    by (rule same_entries_put_imports) (simp add: same_entries_def)
  have wf': "same_entries (?dict libs)" for libs
    by (intro same_entries_put_imports wf)
  have keys: "fst ` set (?dict libs) = import_statement ` (set (needImports' s0) \<union> set libs \<union> set ?extra)" for libs
    by (auto simp: keys_put_imports)
  let ?lines = "\<lambda>libs. sort (forin_keys (?dict libs))"
  have props: "sorted (?lines libs)" "distinct (?lines libs)"
    "set (?lines libs) = import_statement ` (set (needImports' s0) \<union> set libs \<union> set ?extra)" for libs
    using wf' [of libs] keys [of libs]
    by (simp_all add: set_forin_keys distinct_forin_keys same_entries_def)
  have same: "?lines xs = ?lines ys"
    by (rule sorted_distinct_set_unique) (simp_all only: props assms)
  from registered_imports [OF d wf, of xs] obtain s1 where
    x: "andThen (addImports xs s) getImports = Inr (join NL (?lines xs), s1)" by blast
  from registered_imports [OF d wf, of ys] obtain s2 where
    y: "andThen (addImports ys s) getImports = Inr (join NL (?lines ys), s2)" by blast
  have extra: "set ?extra = (case ExtraImports' s0 of None \<Rightarrow> {} | Some extra \<Rightarrow> set extra)"
    by (simp add: e split: option.split)
  from s x y same props [of xs] extra show ?thesis
    by (intro exI [of _ s] exI [of _ "?lines xs"] exI [of _ s1] exI [of _ s2]) simp
qed

theorem getImports_sorted_unique_witness:
  "set [''java.util.List'', ''java.text.NumberFormat''] =
     set [''java.text.NumberFormat'', ''java.util.List'', ''java.text.NumberFormat''] \<and>
   (\<exists>s lines s1 s2.
      init flag_workspace import_example = Inr s \<and>
      andThen (addImports [''java.util.List'', ''java.text.NumberFormat''] s) getImports = Inr (join NL lines, s1) \<and>
      andThen (addImports [''java.text.NumberFormat'', ''java.util.List'', ''java.text.NumberFormat''] s) getImports
        = Inr (join NL lines, s2) \<and>
      sorted lines \<and> distinct lines \<and>
      set lines = import_statement `
        (set (needImports' import_example) \<union> set [''java.util.List'', ''java.text.NumberFormat''] \<union>
         (case ExtraImports' import_example of None \<Rightarrow> {} | Some extra \<Rightarrow> set extra)))"
proof -
  have same: "set [''java.util.List'', ''java.text.NumberFormat''] =
     set [''java.text.NumberFormat'', ''java.util.List'', ''java.text.NumberFormat'']"
    by auto
  from same getImports_sorted_unique [OF same, of flag_workspace import_example]
  show ?thesis by blast
qed

subsection \<open>Types\<close>

lemma split_single: "c \<notin> set t \<Longrightarrow> split c t = [t]"
  by (induction t) auto

lemma mapKey_Object: "mapKey s typeMapping ''Object'' = (Str ''Object'', [])"
  by (simp add: mapKey_def get_def typeMapping_def)

lemma mapKey_unknown:
  assumes "\<not> has_property t mapping" and "Blocks_GBPClass s t = None"
    and "VariableTypeEquivalence s t = None"
  shows "mapKey s mapping t = (Str ''Object'', [''Unknown type for '' @ t @ '' using Var for '' @ t])"
  using assms by (simp add: mapKey_def has_property_def)

lemma mapType_empty:
  "mapType None s = (Str ''Object'', s\<lparr>console := console s @ [''Empty type. Using Object'']\<rparr>)"
  "mapType (Some []) s = (Str ''Object'', s\<lparr>console := console s @ [''Empty type. Using Object'']\<rparr>)"
  by (simp_all add: mapType_def mapKey_Object)

lemma mapType_unknown:
  assumes "\<not> has_property t typeMapping" and "Blocks_GBPClass s t = None"
    and "VariableTypeEquivalence s t = None" and "CHR '':'' \<notin> set t"
  shows "mapType (Some t) s =
           (Str ''Object'',
            s\<lparr>console := console s @
               [if t = [] then ''Empty type. Using Object''
                else ''Unknown type for '' @ t @ '' using Var for '' @ t]\<rparr>)"
proof (cases "t = []")
  case True
  then show ?thesis by (simp add: mapType_empty)
next
  case False
  with assms show ?thesis
    by (simp add: mapType_def split_single mapKey_unknown)
qed

lemma GetVariableType_unrecorded:
  "\<not> has_property nm (variableTypes' s) \<Longrightarrow> GetVariableType nm s = Str ''Object''"
  by (simp add: GetVariableType_def has_property_def)

text \<open>
  Examples: a type of the table, a nested type, a type that is in no table, and a name
  that the table inherits from \<^verbatim>\<open>Object.prototype\<close>, for which the lookup
  \<^verbatim>\<open>typeMapping[type]\<close> finds the inherited function.
\<close>

lemma mapType_example_unknown:
  "mapType (Some ''Widget'') (loaded 2024) =
     (Str ''Object'', (loaded 2024)\<lparr>console := [''Unknown type for Widget using Var for Widget'']\<rparr>)"
  by (simp add: mapType_def mapKey_def get_def typeMapping_def Object_prototype_def loaded_def)

lemma mapType_examples:
  "fst (mapType (Some ''Boolean'') s) = Str ''boolean''"
  "fst (mapType (Some ''Array:Number'') s) = Str ''YailList<Double>''"
  "fst (mapType (Some ''constructor'') s) = Builtin ''constructor''"
  by (simp_all add: mapType_def mapKey_def get_def typeMapping_def subtypeMapping_def Object_prototype_def)

text \<open>
  \<^verbatim>\<open>mapType\<close> has no \<^verbatim>\<open>throw\<close> and reads no property of
  \<^verbatim>\<open>undefined\<close>: it is a total function with no error among its results. The
  fallback to \<^verbatim>\<open>Object\<close> holds for a missing or empty type and for every single
  token and every variable name that the table read neither holds nor inherits.
\<close>

lemma mapType_fallback:
  "fst (mapType None s) = Str ''Object'' \<and>
   fst (mapType (Some []) s) = Str ''Object'' \<and>
   (\<not> has_property t typeMapping \<and> Blocks_GBPClass s t = None \<and>
    VariableTypeEquivalence s t = None \<and> CHR '':'' \<notin> set t \<longrightarrow>
      fst (mapType (Some t) s) = Str ''Object'' \<and>
      length (console (snd (mapType (Some t) s))) = Suc (length (console s))) \<and>
   (\<not> has_property nm (variableTypes' s) \<longrightarrow> GetVariableType nm s = Str ''Object'')"
  by (simp add: mapType_empty mapType_unknown GetVariableType_unrecorded)

text \<open>
  C4. The token \<^verbatim>\<open>constructor\<close> is not an entry of the type table, is no block class
  and is in no equivalence table, and the name \<^verbatim>\<open>toString\<close> has no recorded type;
  yet \<^verbatim>\<open>mapType\<close> and \<^verbatim>\<open>GetVariableType\<close> return for them the functions
  that the two object literals inherit from \<^verbatim>\<open>Object.prototype\<close>, where the claim
  has the string \<^verbatim>\<open>Object\<close>.
\<close>

theorem mapType_inherited_name:
  "map_of typeMapping ''constructor'' = None \<and>
   Blocks_GBPClass (loaded 2024) ''constructor'' = None \<and>
   VariableTypeEquivalence (loaded 2024) ''constructor'' = None \<and>
   fst (mapType (Some ''constructor'') (loaded 2024)) = Builtin ''constructor'' \<and>
   fst (mapType (Some ''constructor'') (loaded 2024)) \<noteq> Str ''Object'' \<and>
   map_of (variableTypes' (loaded 2024)) ''toString'' = None \<and>
   GetVariableType ''toString'' (loaded 2024) = Builtin ''toString'' \<and>
   GetVariableType ''toString'' (loaded 2024) \<noteq> Str ''Object''"
  by (simp add: mapType_def mapKey_def GetVariableType_def get_def typeMapping_def
      Object_prototype_def loaded_def)

subsection \<open>Field declarations\<close>

text \<open>
  The initializer of a field: the value given, or else the one of the resolved type.
  The last line is the type that \<^verbatim>\<open>typeMapping\<close> gives a Boolean variable.
\<close>

lemma initializer_cases:
  "v \<noteq> [] \<Longrightarrow> initializer (Some (Some v)) type = '' = '' @ v"
  "val \<in> {None, Some None, Some (Some [])} \<Longrightarrow> initializer val (Str ''Var'') = '' = new Var()''"
  "val \<in> {None, Some None, Some (Some [])} \<Longrightarrow> initializer val (Str ''String'') = '' = '' @ DQ @ DQ"
  "val \<in> {None, Some None, Some (Some [])} \<Longrightarrow> initializer val (Str ''Boolean'') = '' = false''"
  "val \<in> {None, Some None, Some (Some [])} \<Longrightarrow> initializer val (Str ''boolean'') = []"
  by (auto simp: initializer_def)

lemma flag_type:
  "map_sum id (GetVariableType ''flag'') (init flag_workspace (loaded 2024)) = Inr (Str ''boolean'')"
  by code_simp

text \<open>
  C5. A run on a workspace whose one variable, \<^verbatim>\<open>flag\<close>, has the type
  \<^verbatim>\<open>Boolean\<close>, and which is made a global with no initializer: the field that
  \<^verbatim>\<open>finish\<close> declares has the type \<^verbatim>\<open>boolean\<close> and no initializer, where the
  claim has \<^verbatim>\<open>= false\<close>.
\<close>

theorem finish_boolean_global:
  "map_sum id fst
     (andThen (init flag_workspace (loaded 2024))
        (\<lambda>s. finish issue_unchanged [] (setGlobalVar False ''flag'' None s))) =
   Inr (''protected boolean flag;'' @ NL @ NL @ NL)"
  by code_simp

subsection \<open>A root that is neither a block nor a workspace\<close>

lemma forceUpdate_neither:
  "getDescendants r = None \<Longrightarrow> getAllBlocks r = None \<Longrightarrow>
   forceUpdate r s = Inl (Thrown (''Not Block or Workspace: '' @ root_text r))"
  by (simp add: forceUpdate_def)

text \<open>No text is returned for such a root; which error is raised depends on \<^verbatim>\<open>options\<close>.\<close>

lemma workspaceToCode_neither:
  "getDescendants r = None \<Longrightarrow> getAllBlocks r = None \<Longrightarrow>
   workspaceToCode gn base r parms s =
     Inl (if options r = None then TypeError ''workspace.options is undefined''
          else Thrown (''Not Block or Workspace: '' @ root_text r))"
  by (simp add: workspaceToCode_def forceUpdate_def andThen_def split: option.split)

text \<open>
  C6. For a root with no \<^verbatim>\<open>options\<close>, \<^verbatim>\<open>workspaceToCode\<close> fails on line 446,
  reading \<^verbatim>\<open>workspace.options.appTitle\<close>, before \<^verbatim>\<open>forceUpdate\<close> is called:
  the error is not the one of \<^verbatim>\<open>forceUpdate\<close> and does not name the root.
\<close>

theorem workspaceToCode_bare_object:
  "workspaceToCode gn base bare_object parms s = Inl (TypeError ''workspace.options is undefined'')"
  by (simp add: workspaceToCode_def bare_object_def)

subsection \<open>Comments and modifiers\<close>

lemma value_comments_children:
  "value_comments pl anc inputs =
     concat (map (\<lambda>child. pl (anc child) ''// '')
                 (filter (\<lambda>child. anc child \<noteq> []) (value_children inputs)))"
  by (induction inputs) (auto simp: value_children_def map_filter_simps Let_def split: option.splits)

lemma value_children_without_statements:
  "value_children (without_statements inputs) = value_children inputs"
  by (induction inputs) (auto simp: value_children_def without_statements_def map_filter_simps split: option.splits)

text \<open>
  C7. For a block whose output connection is absent or unconnected, the comment lines
  are the block's own comment, prefixed and ended by a newline, and then, in the order
  of the inputs, the prefixed nested comments of each block connected to a value input;
  for a block whose output feeds a parent they are empty; the statement inputs
  contribute nothing; and \<^verbatim>\<open>scrub_\<close> puts the comment lines before the code.
\<close>

theorem scrub_comment_order:
  "(outputConnection b = None \<or> outputConnection b = Some False \<longrightarrow>
      commentCode pl anc b =
        own_comment pl b @
        concat (map (\<lambda>child. pl (anc child) ''// '')
                    (filter (\<lambda>child. anc child \<noteq> []) (value_children (inputList b))))) \<and>
   (outputConnection b = Some True \<longrightarrow> commentCode pl anc b = []) \<and>
   commentCode pl anc (Block c out (without_statements inputs) nxt h) =
     commentCode pl anc (Block c out inputs nxt h) \<and>
   (\<forall>nextCode s'.
      btc (case nextConnection b of None \<Rightarrow> None | Some target \<Rightarrow> target) parms
          (s\<lparr>POSTFIX := [], EXTRAINDENT := []\<rparr>) = Inr (nextCode, s') \<longrightarrow>
      (\<exists>rest. scrub' pl anc btc b code parms s = Inr (commentCode pl anc b @ code @ rest, s')))"
proof -
  have "commentCode pl anc (Block c out (without_statements inputs) nxt h) =
          commentCode pl anc (Block c out inputs nxt h)"
    by (simp add: commentCode_def value_comments_children value_children_without_statements)
  moreover have "\<exists>rest. scrub' pl anc btc b code parms s = Inr (commentCode pl anc b @ code @ rest, s')"
    if "btc (case nextConnection b of None \<Rightarrow> None | Some target \<Rightarrow> target) parms
          (s\<lparr>POSTFIX := [], EXTRAINDENT := []\<rparr>) = Inr (nextCode, s')" for nextCode s'
    using that by (simp add: scrub'_def Let_def andThen_def)
  ultimately show ?thesis
    by (auto simp: commentCode_def own_comment_def value_comments_children)
qed

theorem scrub_comment_order_witness:
  "(outputConnection comment_block = None \<or> outputConnection comment_block = Some False) \<and>
   commentCode prefix_line comment_line comment_block = ''// do X'' @ NL @ ''// helper note'' @ NL \<and>
   outputConnection (Block (Some ''helper note'') (Some True) [] None None) = Some True \<and>
   commentCode prefix_line comment_line (Block (Some ''helper note'') (Some True) [] None None) = [] \<and>
   show_modifiers None () ((loaded 2024)\<lparr>POSTFIX := [], EXTRAINDENT := []\<rparr>)
     = Inr (''next[]'', (loaded 2024)\<lparr>POSTFIX := [], EXTRAINDENT := []\<rparr>) \<and>
   (\<exists>rest. scrub' prefix_line comment_line show_modifiers comment_block ''code;'' () (loaded 2024) =
      Inr (commentCode prefix_line comment_line comment_block @ ''code;'' @ rest,
           (loaded 2024)\<lparr>POSTFIX := [], EXTRAINDENT := []\<rparr>))"
proof -
  let ?child = "Block (Some ''helper note'') (Some True) [] None None"
  let ?s = "(loaded 2024)\<lparr>POSTFIX := [], EXTRAINDENT := []\<rparr>"
  have free: "outputConnection comment_block = None \<or> outputConnection comment_block = Some False"
    by (simp add: comment_block_def)
  have fed: "outputConnection ?child = Some True"
    by simp
  have next_code: "show_modifiers (case nextConnection comment_block of None \<Rightarrow> None | Some target \<Rightarrow> target) ()
      ?s = Inr (''next[]'', ?s)"
    by (simp add: show_modifiers_def loaded_def)
  note parent = scrub_comment_order [where b = comment_block and pl = prefix_line
      and anc = comment_line and btc = show_modifiers and parms = "()" and s = "loaded 2024"
      and code = "''code;''" and c = None and out = None and inputs = "[]" and nxt = None
      and h = None]
  note child = scrub_comment_order [where b = ?child and pl = prefix_line and anc = comment_line
      and btc = show_modifiers and parms = "()" and s = "loaded 2024" and code = "''code;''"
      and c = None and out = None and inputs = "[]" and nxt = None and h = None]
  from parent free have
    "commentCode prefix_line comment_line comment_block =
       own_comment prefix_line comment_block @
       concat (map (\<lambda>child. prefix_line (comment_line child) ''// '')
                   (filter (\<lambda>child. comment_line child \<noteq> []) (value_children (inputList comment_block))))"
    by blast
  then have comments:
    "commentCode prefix_line comment_line comment_block = ''// do X'' @ NL @ ''// helper note'' @ NL"
    by (simp add: own_comment_def comment_block_def value_children_def map_filter_simps
        prefix_line_def comment_line_def)
  from child fed have none: "commentCode prefix_line comment_line ?child = []"
    by blast
  from parent next_code have
    "\<exists>rest. scrub' prefix_line comment_line show_modifiers comment_block ''code;'' () (loaded 2024) =
      Inr (commentCode prefix_line comment_line comment_block @ ''code;'' @ rest, ?s)"
    by blast
  with free comments fed none show ?thesis
    by (simp add: show_modifiers_def loaded_def)
qed

text \<open>
  C8. Whatever \<^verbatim>\<open>POSTFIX\<close> and \<^verbatim>\<open>EXTRAINDENT\<close> hold when
  \<^verbatim>\<open>scrub_\<close> is called, the next block is emitted in a state where both are
  empty; the extra indent prefixes the code of the next block only, and the postfix is
  appended once, after it.
\<close>

theorem scrub_modifiers_single_use:
  "scrub' pl anc btc b code parms (s\<lparr>POSTFIX := postFix, EXTRAINDENT := extraIndent\<rparr>) =
     (case btc (case nextConnection b of None \<Rightarrow> None | Some target \<Rightarrow> target) parms
             (s\<lparr>POSTFIX := [], EXTRAINDENT := []\<rparr>) of
        Inl e \<Rightarrow> Inl e
      | Inr (nextCode, s') \<Rightarrow>
          Inr (commentCode pl anc b @ code
                 @ (if extraIndent \<noteq> [] then pl nextCode extraIndent else nextCode)
                 @ postFix,
               s'))"
  by (simp add: scrub'_def Let_def andThen_def split: sum.split prod.split)

theorem scrub_modifiers_single_use_witness:
  "scrub' prefix_line comment_line show_modifiers comment_block ''code;'' ()
     ((loaded 2024)\<lparr>POSTFIX := ''}'', EXTRAINDENT := ''  ''\<rparr>) =
   Inr (''// do X'' @ NL @ ''// helper note'' @ NL @ ''code;'' @ ''  next[]'' @ ''}'',
        (loaded 2024)\<lparr>POSTFIX := [], EXTRAINDENT := []\<rparr>)"
proof -
  have comments:
    "commentCode prefix_line comment_line comment_block = ''// do X'' @ NL @ ''// helper note'' @ NL"
    by (simp add: commentCode_def comment_block_def prefix_line_def comment_line_def)
  have next_code: "show_modifiers (case nextConnection comment_block of None \<Rightarrow> None | Some target \<Rightarrow> target) ()
      ((loaded 2024)\<lparr>POSTFIX := [], EXTRAINDENT := []\<rparr>) =
      Inr (''next[]'', (loaded 2024)\<lparr>POSTFIX := [], EXTRAINDENT := []\<rparr>)"
    by (simp add: show_modifiers_def loaded_def)
  show ?thesis
    using scrub_modifiers_single_use [where pl = prefix_line and anc = comment_line
        and btc = show_modifiers and b = comment_block and code = "''code;''" and parms = "()"
        and s = "loaded 2024" and postFix = "''}''" and extraIndent = "''  ''"]
    by (simp add: comments next_code prefix_line_def)
qed

subsection \<open>State across runs\<close>

text \<open>
  C9, as the code has it. \<^verbatim>\<open>init\<close> always succeeds and leaves the definitions,
  the function names, the extra classes and the globals empty, the imports holding the
  statements of \<^verbatim>\<open>needImports_\<close> only, the name registry empty and the Blockly types
  those of the workspace. The interface list is kept, as the base class and the two
  import lists are: they are settings.
\<close>

theorem init_rebuilds_dictionaries:
  "\<exists>s'. init workspace s = Inr s' \<and>
        definitions' s' = Some [] \<and> functionNames' s' = Some [] \<and>
        imports' s' = Some (put_imports (needImports' s) []) \<and>
        classes' s' = [] \<and> globals' s' = [] \<and>
        variableDB' s' = Some Names_new \<and>
        blocklyTypes' s' = allVariablesTypes workspace \<and>
        Interfaces' s' = Interfaces' s \<and> Baseclass' s' = Baseclass' s \<and>
        ExtraImports' s' = ExtraImports' s \<and> needImports' s' = needImports' s"
proof -
  from init_result [of workspace s] obtain vt c where
    "init workspace s =
     Inr (s\<lparr>definitions' := Some [], functionNames' := Some [],
            classes' := [], globals' := [], globals_literal := False,
            imports' := Some (put_imports (needImports' s) []),
            variableDB' := Some Names_new,
            VariableTypeEquivalence := (VariableTypeEquivalence s)(''Colour'' \<mapsto> [''String'']),
            blocklyTypes' := allVariablesTypes workspace,
            variableTypes' := vt, console := c\<rparr>)"
    by blast
  then show ?thesis by simp
qed

text \<open>
  C9, as stated, fails. An interface added during a first run is still returned by
  \<^verbatim>\<open>getInterfaces\<close> after the \<^verbatim>\<open>init\<close> of a second run, and so is the type of
  a variable of the first workspace that the second, which has no variable, does not have.
\<close>

theorem init_keeps_interfaces_and_types:
  "map_sum id getInterfaces
     (andThen (init flag_workspace (loaded 2024)) (init empty_workspace \<circ> addInterface ''Runnable''))
     = Inr (Some [''Runnable'']) \<and>
   map_sum id (GetVariableType ''flag'')
     (andThen (init flag_workspace (loaded 2024)) (init empty_workspace \<circ> addInterface ''Runnable''))
     = Inr (Str ''boolean'') \<and>
   allVariables empty_workspace = [] \<and> allVariablesTypes empty_workspace = []"
  by code_simp

subsection \<open>The order of the helper definitions\<close>

lemma slot_of_static: "map_of defs nm = Some def \<Longrightarrow> (slot_of def = 0) = static_like defs nm"
  by (cases def) (simp_all add: slot_of_def static_like_def split_limit_def)

lemma collect_funcs_filter:
  "collect_funcs defs names funcs =
     (fst funcs @ filter (static_like defs)
                    (filter (\<lambda>nm. nm \<noteq> ''variables'' \<and> map_of defs nm \<noteq> None) names),
      snd funcs @ filter (\<lambda>nm. \<not> static_like defs nm)
                    (filter (\<lambda>nm. nm \<noteq> ''variables'' \<and> map_of defs nm \<noteq> None) names))"
  by (induction names arbitrary: funcs) (auto simp: slot_of_static)

lemma emit_funcs_entries: "emit_funcs defs names = concat (map (helper_entry defs) names)"
  by (induction names) (simp_all add: helper_entry_def split: option.split)

lemma sort_forin_keys:
  assumes "distinct (map fst d)"
  shows "sort (filter P (forin_keys d)) = sort (filter P (map fst d))"
proof (rule sorted_distinct_set_unique)
  show "distinct (sort (filter P (forin_keys d)))"
    using assms by (simp add: distinct_forin_keys)
  show "distinct (sort (filter P (map fst d)))"
    using assms by simp
  show "set (sort (filter P (forin_keys d))) = set (sort (filter P (map fst d)))"
    by (auto simp: set_forin_keys)
qed simp_all

lemma collected_names:
  "filter (\<lambda>nm. nm \<noteq> ''variables'' \<and> map_of defs nm \<noteq> None) (forin_keys defs) =
   filter (\<lambda>nm. nm \<noteq> ''variables'') (forin_keys defs)"
  by (rule filter_cong) (auto simp: set_forin_keys map_of_eq_None_iff)

lemma emission_order_props:
  assumes "distinct (map fst defs)"
  shows "distinct (emission_order defs)"
    and "set (emission_order defs) = fst ` set defs - {''variables''}"
  using assms by (auto simp: emission_order_def Let_def)

text \<open>
  C3, as the code has it. The text that \<^verbatim>\<open>finish\<close> returns is the field
  declarations, then one entry for each helper in the order of \<open>emission_order\<close>,
  cleaned of runs of newlines, then the code. Every name of \<^verbatim>\<open>definitions_\<close> but
  \<^verbatim>\<open>variables\<close> is in that order exactly once.
\<close>

theorem finish_emission_order:
  assumes "definitions' s = Some defs" and "distinct (map fst defs)" and "variableDB' s = Some db"
  shows "\<exists>s'.
           finish gn code s =
             Inr (end_newlines (collapse_newlines 0
                    (fst (declare_globals gn s (forin_keys (globals' s)) db)
                     @ concat (map (helper_entry defs) (emission_order defs)))) @ code,
                  s') \<and>
           distinct (emission_order defs) \<and>
           set (emission_order defs) = fst ` set defs - {''variables''}"
proof -
  let ?names = "filter (\<lambda>nm. nm \<noteq> ''variables'') (forin_keys defs)"
  let ?funcs = "collect_funcs defs (forin_keys defs) ([], [])"
  have funcs: "?funcs = (filter (static_like defs) ?names, filter (\<lambda>nm. \<not> static_like defs nm) ?names)"
    unfolding collect_funcs_filter collected_names by simp
  have order: "sort (fst ?funcs) @ sort (snd ?funcs) = emission_order defs"
    using assms(2) by (simp add: funcs emission_order_def Let_def sort_forin_keys)
  have "emit_funcs defs (sort (fst ?funcs)) @ emit_funcs defs (sort (snd ?funcs)) =
          concat (map (helper_entry defs) (emission_order defs))"
    by (simp add: emit_funcs_entries flip: order)
  then have "\<exists>s'.
           finish gn code s =
             Inr (end_newlines (collapse_newlines 0
                    (fst (declare_globals gn s (forin_keys (globals' s)) db)
                     @ concat (map (helper_entry defs) (emission_order defs)))) @ code,
                  s')"
    using assms(1,3) by (auto simp: finish_def Let_def split: prod.split)
  with emission_order_props [OF assms(2)] show ?thesis by blast
qed

theorem finish_emission_order_witness:
  "definitions' helper_example =
     Some [(''alpha'', Text ''public void alpha() {}''),
           (''beta'', Factory ''public static int beta() { return 1; }''),
           (''gamma'', Text ''public final synchronized static void gamma() {}''),
           (''delta'', Text ''private static void delta() {}'')] \<and>
   variableDB' helper_example = Some Names_new \<and>
   emission_order [(''alpha'', Text ''public void alpha() {}''),
           (''beta'', Factory ''public static int beta() { return 1; }''),
           (''gamma'', Text ''public final synchronized static void gamma() {}''),
           (''delta'', Text ''private static void delta() {}'')]
     = [''delta'', ''alpha'', ''beta'', ''gamma''] \<and>
   (\<exists>s'.
      finish issue_unchanged [] helper_example =
        Inr (end_newlines (collapse_newlines 0
               (fst (declare_globals issue_unchanged helper_example
                       (forin_keys (globals' helper_example)) Names_new)
                @ concat (map (helper_entry
                     [(''alpha'', Text ''public void alpha() {}''),
                      (''beta'', Factory ''public static int beta() { return 1; }''),
                      (''gamma'', Text ''public final synchronized static void gamma() {}''),
                      (''delta'', Text ''private static void delta() {}'')])
                   [''delta'', ''alpha'', ''beta'', ''gamma'']))) @ [],
             s'))"
proof -
  let ?defs = "[(''alpha'', Text ''public void alpha() {}''),
           (''beta'', Factory ''public static int beta() { return 1; }''),
           (''gamma'', Text ''public final synchronized static void gamma() {}''),
           (''delta'', Text ''private static void delta() {}'')]"
  have defs: "definitions' helper_example = Some ?defs"
    by (simp add: helper_example_def)
  have keys: "distinct (map fst ?defs)"
    by simp
  have db: "variableDB' helper_example = Some Names_new"
    by (simp add: helper_example_def)
  have order: "emission_order ?defs = [''delta'', ''alpha'', ''beta'', ''gamma'']"
    by code_simp
  from finish_emission_order [OF defs keys db, of issue_unchanged "[]"] defs db order
  show ?thesis by simp
qed

text \<open>
  C3, as stated, fails: \<^verbatim>\<open>alpha\<close>, whose text has no word \<^verbatim>\<open>static\<close>, is
  emitted before \<^verbatim>\<open>beta\<close> and \<^verbatim>\<open>gamma\<close>, whose texts have it.
\<close>

theorem finish_static_marker_counterexample:
  "map_sum id fst (finish issue_unchanged [] helper_example) =
     Inr (''  /**'' @ NL @ '' * Description goes here'' @ NL @ '' */'' @ NL
          @ ''private static void delta() {}'' @ NL @ NL
          @ ''  /**'' @ NL @ '' * Description goes here'' @ NL @ '' */'' @ NL
          @ ''public void alpha() {}'' @ NL @ NL
          @ ''  /**'' @ NL @ '' * Description goes here'' @ NL @ '' *'' @ NL @ '' * @return int'' @ NL
          @ '' */'' @ NL
          @ ''public static int beta() { return 1; }'' @ NL @ NL
          @ ''  /**'' @ NL @ '' * Description goes here'' @ NL @ '' */'' @ NL
          @ ''public final synchronized static void gamma() {}'' @ NL @ NL @ NL) \<and>
   ''static'' \<notin> set (split CHR '' '' ''public void alpha() {}'') \<and>
   ''static'' \<in> set (split CHR '' '' ''public static int beta() { return 1; }'') \<and>
   ''static'' \<in> set (split CHR '' '' ''public final synchronized static void gamma() {}'')"
  by code_simp

subsection \<open>The name registry\<close>















subsection \<open>The base class and the fixed imports\<close>
















end
